theory Spec2Isabelle
  imports Complex_Main "HOL-Library.Char_ord" "HOL-Library.List_Lexorder"
begin

section \<open>Strings and numbers of the host language\<close>

text \<open>
  Descriptions, ids and priorities are JavaScript strings. The model takes them as
  \<^typ>\<open>string\<close> and covers ASCII text: the character classes below are the ASCII part
  of the classes \<^verbatim>\<open>\s\<close> and \<^verbatim>\<open>\w\<close> of a JavaScript regular expression, and
  \<^verbatim>\<open>toLowerCase\<close> maps \<^verbatim>\<open>A-Z\<close> to \<^verbatim>\<open>a-z\<close>.
\<close>

definition isSpace :: "char \<Rightarrow> bool" where
  "isSpace c = (let n = (of_char c :: nat) in (9 \<le> n \<and> n \<le> 13) \<or> n = 32)"

definition isWord :: "char \<Rightarrow> bool" where
  "isWord c = (let n = (of_char c :: nat) in
     (97 \<le> n \<and> n \<le> 122) \<or> (65 \<le> n \<and> n \<le> 90) \<or> (48 \<le> n \<and> n \<le> 57) \<or> n = 95)"

definition toLowerChar :: "char \<Rightarrow> char" where
  "toLowerChar c = (let n = (of_char c :: nat) in
     if 65 \<le> n \<and> n \<le> 90 then char_of (n + 32) else c)"

definition toLowerCase :: "string \<Rightarrow> string" where
  "toLowerCase s = map toLowerChar s"

definition trim :: "string \<Rightarrow> string" where
  "trim s = rev (dropWhile isSpace (rev (dropWhile isSpace s)))"

text \<open>
  \<^verbatim>\<open>s.split(/\s+/)\<close>: the pieces of \<open>s\<close> between maximal runs of white space. The flag
  says whether the scan is inside a run; \<open>cur\<close> is the piece being read. A string that
  starts or ends with white space gives an empty first or last piece, and the empty
  string gives the single piece \<open>''''\<close>.
\<close>

fun splitWs_go :: "bool \<Rightarrow> string \<Rightarrow> string \<Rightarrow> string list" where
  "splitWs_go inRun cur [] = [cur]"
| "splitWs_go inRun cur (c # cs) =
     (if isSpace c then (if inRun then splitWs_go True cur cs else cur # splitWs_go True [] cs)
      else splitWs_go False (cur @ [c]) cs)"

definition splitWs :: "string \<Rightarrow> string list" where
  "splitWs s = splitWs_go False [] s"

text \<open>\<^verbatim>\<open>s.replace(/\s+/g, " ")\<close>: every maximal run of white space becomes one blank.\<close>

fun collapseWs_go :: "bool \<Rightarrow> string \<Rightarrow> string" where
  "collapseWs_go inRun [] = []"
| "collapseWs_go inRun (c # cs) =
     (if isSpace c then (if inRun then collapseWs_go True cs else CHR '' '' # collapseWs_go True cs)
      else c # collapseWs_go False cs)"

definition collapseWs :: "string \<Rightarrow> string" where
  "collapseWs s = collapseWs_go False s"

text \<open>
  A JavaScript number, as far as the comparator needs it: a finite value (a rational;
  the quotients of two set sizes and the constants 0.3, 0.8 and 0.9 compare as
  rationals for every size a string can reach), the two infinities and \<open>NaN\<close>.
  Every comparison with \<open>NaN\<close> is false.
\<close>

datatype number = NaN | Num rat | PosInfinity | NegInfinity

fun num_lt :: "number \<Rightarrow> number \<Rightarrow> bool" where
  "num_lt (Num a) (Num b) = (a < b)"
| "num_lt NegInfinity (Num b) = True"
| "num_lt NegInfinity PosInfinity = True"
| "num_lt (Num a) PosInfinity = True"
| "num_lt _ _ = False"

definition num_gt :: "number \<Rightarrow> number \<Rightarrow> bool" where
  "num_gt a b = num_lt b a"

definition isNaN :: "number \<Rightarrow> bool" where
  "isNaN x = (x = NaN)"

text \<open>The quotient of two sizes: \<open>0 / 0\<close> is \<open>NaN\<close> and \<open>n / 0\<close> is infinite.\<close>

definition num_div :: "nat \<Rightarrow> nat \<Rightarrow> number" where
  "num_div n d = (if d = 0 then (if n = 0 then NaN else PosInfinity)
                  else Num (of_nat n / of_nat d))"

section \<open>The quick filter\<close>

text \<open>
  \<^verbatim>\<open>quickStringComparison\<close> of the AI service: lower-case, drop every character that is
  neither a word character nor white space, split at white space, and take the Jaccard
  similarity of the two sets of words.
\<close>

definition normalize_str :: "string \<Rightarrow> string" where
  "normalize_str str = filter (\<lambda>c. isWord c \<or> isSpace c) (toLowerCase str)"

definition words_of :: "string \<Rightarrow> string set" where
  "words_of str = set (splitWs (normalize_str str))"

definition intersection_words :: "string \<Rightarrow> string \<Rightarrow> string set" where
  "intersection_words str1 str2 = {x \<in> words_of str1. x \<in> words_of str2}"

definition union_words :: "string \<Rightarrow> string \<Rightarrow> string set" where
  "union_words str1 str2 = words_of str1 \<union> words_of str2"

definition quickStringComparison :: "string \<Rightarrow> string \<Rightarrow> number" where
  "quickStringComparison str1 str2 = num_div (card (intersection_words str1 str2)) (card (union_words str1 str2))"

section \<open>The pairwise comparator\<close>

datatype error =
  ClassifierError string
| TypeError string
| ReferenceError string
| NotFoundError string

text \<open>
  The semantic classifier is outside the repository. \<open>classify t1 t2\<close> stands for the
  three steps \<^verbatim>\<open>compareTaskSimilarity\<close> makes with it: formatting the prompt with the two
  descriptions, \<^verbatim>\<open>this.model.invoke\<close>, and \<^verbatim>\<open>parseFloat(response.content.trim())\<close>.
  It gives \<open>Inl\<close> when any of them throws and the parsed score otherwise.
\<close>

type_synonym classifier = "string \<Rightarrow> string \<Rightarrow> error + number"

text \<open>\<^verbatim>\<open>d || ""\<close> on a string: the empty string is the only falsy one.\<close>

definition orEmpty :: "string \<Rightarrow> string" where
  "orEmpty d = (if d = [] then [] else d)"

text \<open>
  The body of the \<^verbatim>\<open>try\<close> block. The second component counts the calls made to the
  classifier.
\<close>

definition compareTaskSimilarity_try :: "classifier \<Rightarrow> string \<Rightarrow> string \<Rightarrow> (error + number) \<times> nat" where
  "compareTaskSimilarity_try classify task1Description task2Description =
     (let quickSimilarity = quickStringComparison task1Description task2Description in
      if num_lt quickSimilarity (Num (3 / 10)) then (Inr (Num 0), 0)
      else if num_gt quickSimilarity (Num (9 / 10)) then (Inr (Num 1), 0)
      else (case classify (orEmpty task1Description) (orEmpty task2Description) of
              Inl e \<Rightarrow> (Inl e, 1)
            | Inr similarityScore \<Rightarrow>
                if isNaN similarityScore \<or> num_lt similarityScore (Num 0) \<or> num_gt similarityScore (Num 1)
                then (Inr quickSimilarity, 1)
                else (Inr similarityScore, 1)))"

text \<open>The \<^verbatim>\<open>catch\<close> block returns the quick estimate of the two descriptions.\<close>

definition compareTaskSimilarity :: "classifier \<Rightarrow> string \<Rightarrow> string \<Rightarrow> (error + number) \<times> nat" where
  "compareTaskSimilarity classify task1Description task2Description =
     (case compareTaskSimilarity_try classify task1Description task2Description of
        (Inl e, calls) \<Rightarrow>
          (Inr (quickStringComparison (orEmpty task1Description) (orEmpty task2Description)), calls)
      | (Inr v, calls) \<Rightarrow> (Inr v, calls))"

text \<open>The scores that the comparator rejects.\<close>

definition invalidScore :: "number \<Rightarrow> bool" where
  "invalidScore s = (isNaN s \<or> num_lt s (Num 0) \<or> num_gt s (Num 1))"

text \<open>A classifier that is down, and one that answers with a score out of range.\<close>

definition unavailable :: classifier where
  "unavailable t1 t2 = Inl (ClassifierError ''unavailable'')"

definition outOfRange :: classifier where
  "outOfRange t1 t2 = Inr (Num (3 / 2))"

section \<open>Tasks\<close>

text \<open>
  A task object, with the properties that the consolidation code reads and writes. A
  property whose value may be \<^verbatim>\<open>null\<close> or \<^verbatim>\<open>undefined\<close> has an option type and
  \<open>None\<close> stands for both, which is also what reading a property that the object does
  not have gives. \<open>missing\<close> holds the names of the properties that the object does not
  have: an object that has \<^verbatim>\<open>deadline: null\<close> and one with no \<^verbatim>\<open>deadline\<close> at all read
  alike and differ there. \<open>taskId\<close> is the property \<^verbatim>\<open>id\<close>, with the empty string for
  a task that has none yet. \<open>email_id\<close> and \<open>thread_id\<close> are the column names that a
  task read back from the durable store carries instead of \<open>emailId\<close> and \<open>threadId\<close>.
\<close>

record task =
  taskId :: string
  description :: string
  priority :: "string option"
  deadline :: "string option"
  dependencies :: "string list option"
  status :: "string option"
  emailId :: "string option"
  threadId :: "string option"
  email_id :: "string option"
  thread_id :: "string option"
  isParent :: "bool option"
  childTaskIds :: "string list option"
  createdAt :: "nat option"
  updatedAt :: "nat option"
  missing :: "string set"

text \<open>\<^verbatim>\<open>a || b\<close> where \<open>a\<close> is a string or missing: the empty string is falsy.\<close>

definition orElse :: "string option \<Rightarrow> string option \<Rightarrow> string option" where
  "orElse a b = (case a of None \<Rightarrow> b | Some s \<Rightarrow> if s = [] then b else Some s)"

subsection \<open>Priority ranks\<close>

text \<open>
  \<^verbatim>\<open>const priorityMap = { HIGH: 0, MEDIUM: 1, LOW: 2 }\<close>, read at a priority:
  \<open>None\<close> is \<^verbatim>\<open>undefined\<close>, the value of every other key (a missing priority reads the
  key \<^verbatim>\<open>"undefined"\<close>). Priorities that name a member of \<^verbatim>\<open>Object.prototype\<close> are
  outside the model.
\<close>

definition priorityMap :: "string option \<Rightarrow> nat option" where
  "priorityMap p =
     (if p = Some ''HIGH'' then Some 0
      else if p = Some ''MEDIUM'' then Some 1
      else if p = Some ''LOW'' then Some 2
      else None)"

text \<open>
  \<^verbatim>\<open>return priorityMap[priority] || 3\<close>: the number 0 is falsy, as \<^verbatim>\<open>undefined\<close> is, so
  the right operand is returned for it too.
\<close>

definition getPriorityValue :: "string option \<Rightarrow> nat" where
  "getPriorityValue p = (case priorityMap p of None \<Rightarrow> 3 | Some v \<Rightarrow> if v = 0 then 3 else v)"

text \<open>\<^verbatim>\<open>tasks.reduce((highest, task) => ..., "LOW")\<close>\<close>

definition getHighestPriority :: "task list \<Rightarrow> string option" where
  "getHighestPriority ts =
     foldl (\<lambda>highest t.
              if getPriorityValue (priority t) < getPriorityValue highest then priority t
              else highest)
       (Some ''LOW'') ts"

subsection \<open>Deadlines\<close>

text \<open>
  The built-in \<^verbatim>\<open>Date\<close> is a parameter of the model: \<open>getTime d\<close> is
  \<^verbatim>\<open>new Date(d).getTime()\<close> for a string \<open>d\<close>, with \<open>None\<close> for \<open>NaN\<close>, and
  \<open>toISOString ms\<close> is \<^verbatim>\<open>new Date(ms).toISOString()\<close>.
\<close>

record date_api =
  getTime :: "string \<Rightarrow> int option"
  toISOString :: "int \<Rightarrow> string"

text \<open>
  The time value of \<^verbatim>\<open>new Date(ms)\<close> for a number \<open>ms\<close>: beyond 8.64e15 milliseconds on
  either side of the epoch the date is invalid and its time value is \<open>NaN\<close>.
\<close>

definition TimeClip :: "int \<Rightarrow> int option" where
  "TimeClip ms = (if \<bar>ms\<bar> > 8640000000000000 then None else Some ms)"

text \<open>A calendar whose \<open>getTime\<close> answers with time values, as every \<^verbatim>\<open>Date\<close> does.\<close>

definition timeValues :: "date_api \<Rightarrow> bool" where
  "timeValues D = (\<forall>s ms. getTime D s = Some ms \<longrightarrow> TimeClip ms = Some ms)"

text \<open>\<^verbatim>\<open>d && !isNaN(new Date(d).getTime())\<close>\<close>

definition validDeadline :: "date_api \<Rightarrow> string option \<Rightarrow> bool" where
  "validDeadline D d = (case d of None \<Rightarrow> False | Some s \<Rightarrow> s \<noteq> [] \<and> getTime D s \<noteq> None)"

text \<open>\<^verbatim>\<open>Math.min(...xs)\<close> on a non-empty list of time values.\<close>

definition Math_min :: "int list \<Rightarrow> int" where
  "Math_min xs = foldl min (hd xs) (tl xs)"

text \<open>
  \<^verbatim>\<open>getEarliestDeadline(tasks)\<close>. Nothing in the \<^verbatim>\<open>try\<close> block throws on these types,
  so the \<^verbatim>\<open>catch\<close> block, which returns \<^verbatim>\<open>null\<close>, is never entered.
\<close>

definition getEarliestDeadline :: "date_api \<Rightarrow> task list \<Rightarrow> string option" where
  "getEarliestDeadline D ts =
     (let validDeadlines = filter (validDeadline D) (map deadline ts) in
      if length validDeadlines = 0 then None
      else (case TimeClip (Math_min (map (\<lambda>d. the (getTime D (the d))) validDeadlines)) of
              None \<Rightarrow> None
            | Some earliestDate \<Rightarrow> Some (toISOString D earliestDate)))"

section \<open>The task service\<close>

text \<open>
  The state of the \<^verbatim>\<open>TaskService\<close> singleton: its three maps, the events it has emitted
  (oldest first) and the clock that \<^verbatim>\<open>new Date()\<close> reads.
\<close>

datatype event = TaskCreated task | TaskUpdated task task

record TaskService =
  this_tasks :: "string \<rightharpoonup> task"
  this_tasksByEmail :: "string \<rightharpoonup> string list"
  this_similarityCache :: "string \<rightharpoonup> number"
  emitted :: "event list"
  clock :: nat

text \<open>
  The durable store is an external collaborator. \<open>db n i\<close> is what
  \<^verbatim>\<open>dbService.getTaskById(i)\<close> answers when asked at time \<open>n\<close>: a task, or \<open>None\<close> for
  \<^verbatim>\<open>null\<close> (no such row, or a failed query).
\<close>

type_synonym durable = "nat \<Rightarrow> string \<Rightarrow> task option"

definition loadTaskFromDb :: "durable \<Rightarrow> TaskService \<Rightarrow> string \<Rightarrow> task option \<times> TaskService" where
  "loadTaskFromDb db this tid =
     (case db (clock this) tid of
        Some t \<Rightarrow> (Some t, this\<lparr>this_tasks := (this_tasks this)(tid \<mapsto> t)\<rparr>)
      | None \<Rightarrow> (None, this))"

text \<open>
  \<^verbatim>\<open>{ ...task, ...updatedData }\<close>: every property that \<open>updatedData\<close> has wins, also
  when its value is \<^verbatim>\<open>null\<close> or \<^verbatim>\<open>undefined\<close>; a property that \<open>updatedData\<close> does
  not have keeps the value of \<open>task\<close>. \<open>pick k u old new\<close> chooses for the property
  named \<open>k\<close>.
\<close>

definition pick :: "string \<Rightarrow> task \<Rightarrow> 'a \<Rightarrow> 'a \<Rightarrow> 'a" where
  "pick k updatedData old new = (if k \<in> missing updatedData then old else new)"

definition spread :: "task \<Rightarrow> task \<Rightarrow> task" where
  "spread t updatedData =
     \<lparr> taskId = pick ''id'' updatedData (taskId t) (taskId updatedData),
       description = pick ''description'' updatedData (description t) (description updatedData),
       priority = pick ''priority'' updatedData (priority t) (priority updatedData),
       deadline = pick ''deadline'' updatedData (deadline t) (deadline updatedData),
       dependencies = pick ''dependencies'' updatedData (dependencies t) (dependencies updatedData),
       status = pick ''status'' updatedData (status t) (status updatedData),
       emailId = pick ''emailId'' updatedData (emailId t) (emailId updatedData),
       threadId = pick ''threadId'' updatedData (threadId t) (threadId updatedData),
       email_id = pick ''email_id'' updatedData (email_id t) (email_id updatedData),
       thread_id = pick ''thread_id'' updatedData (thread_id t) (thread_id updatedData),
       isParent = pick ''isParent'' updatedData (isParent t) (isParent updatedData),
       childTaskIds = pick ''childTaskIds'' updatedData (childTaskIds t) (childTaskIds updatedData),
       createdAt = pick ''createdAt'' updatedData (createdAt t) (createdAt updatedData),
       updatedAt = pick ''updatedAt'' updatedData (updatedAt t) (updatedAt updatedData),
       missing = missing t \<inter> missing updatedData \<rparr>"

text \<open>
  \<^verbatim>\<open>updateTask(taskId, updatedData)\<close>: the task is taken from the map, else from the
  durable store; when neither has it the call throws. The merged task replaces the old
  one in the map and a \<^verbatim>\<open>task:updated\<close> event is emitted.
\<close>

definition findTask :: "durable \<Rightarrow> TaskService \<Rightarrow> string \<Rightarrow> task option \<times> TaskService" where
  "findTask db this tid =
     (case this_tasks this tid of
        Some t \<Rightarrow> (Some t, this)
      | None \<Rightarrow> loadTaskFromDb db this tid)"

definition updateTask :: "durable \<Rightarrow> TaskService \<Rightarrow> string \<Rightarrow> task \<Rightarrow> error + (task \<times> TaskService)" where
  "updateTask db this tid updatedData =
     (case findTask db this tid of
        (None, this1) \<Rightarrow> Inl (NotFoundError tid)
      | (Some t, this1) \<Rightarrow>
          (let updatedTask = (spread t updatedData)
                 \<lparr> emailId := orElse (emailId updatedData) (orElse (email_id t) (emailId t)),
                   threadId := orElse (threadId updatedData) (orElse (thread_id t) (threadId t)),
                   updatedAt := Some (clock this1),
                   missing := missing t \<inter> missing updatedData - {''emailId'', ''threadId'', ''updatedAt''} \<rparr>
           in Inr (updatedTask,
                   this1\<lparr> this_tasks := (this_tasks this1)(tid \<mapsto> updatedTask),
                          emitted := emitted this1 @ [TaskUpdated updatedTask t],
                          clock := Suc (clock this1) \<rparr>)))"

subsection \<open>Priority propagation\<close>

text \<open>One element of \<^verbatim>\<open>taskExtractionResults\<close>: the tasks extracted from one message.\<close>

record extraction =
  email :: string
  tasks :: "task list"

text \<open>
  The inner loop of \<^verbatim>\<open>prioritizeTasks\<close>, over the tasks that \<open>t\<close> names as dependencies.
  The comparison reads the priorities of the batch objects \<open>depTask\<close> and \<open>t\<close>; the update
  goes to the task map under the id of \<open>depTask\<close>. \<open>withPriority depTask p\<close> is the
  object \<^verbatim>\<open>{ ...depTask, priority: p }\<close>.
\<close>

definition withPriority :: "task \<Rightarrow> string option \<Rightarrow> task" where
  "withPriority depTask p = depTask\<lparr> priority := p, missing := missing depTask - {''priority''} \<rparr>"

fun escalate :: "durable \<Rightarrow> task \<Rightarrow> task list \<Rightarrow> TaskService \<Rightarrow> error + TaskService" where
  "escalate db t [] this = Inr this"
| "escalate db t (depTask # rest) this =
     (if getPriorityValue (priority depTask) > getPriorityValue (priority t)
      then (case updateTask db this (taskId depTask) (withPriority depTask (priority t)) of
              Inl e \<Rightarrow> Inl e
            | Inr (_, this1) \<Rightarrow> escalate db t rest this1)
      else escalate db t rest this)"

text \<open>\<^verbatim>\<open>task.dependencies && task.dependencies.length > 0\<close>\<close>

definition hasDependencies :: "task \<Rightarrow> bool" where
  "hasDependencies t = (case dependencies t of None \<Rightarrow> False | Some ds \<Rightarrow> length ds > 0)"

text \<open>\<^verbatim>\<open>allTasks.filter((t) => task.dependencies.includes(t.description))\<close>\<close>

definition dependentTasks :: "task list \<Rightarrow> task \<Rightarrow> task list" where
  "dependentTasks allTasks t =
     filter (\<lambda>d. description d \<in> set (case dependencies t of None \<Rightarrow> [] | Some ds \<Rightarrow> ds)) allTasks"

text \<open>The outer loop, over the tasks that are still to be visited.\<close>

fun prioritizeLoop :: "durable \<Rightarrow> task list \<Rightarrow> task list \<Rightarrow> TaskService \<Rightarrow> error + TaskService" where
  "prioritizeLoop db allTasks [] this = Inr this"
| "prioritizeLoop db allTasks (t # rest) this =
     (if hasDependencies t
      then (case escalate db t (dependentTasks allTasks t) this of
              Inl e \<Rightarrow> Inl e
            | Inr this1 \<Rightarrow> prioritizeLoop db allTasks rest this1)
      else prioritizeLoop db allTasks rest this)"

definition flatTasks :: "extraction list \<Rightarrow> task list" where
  "flatTasks taskExtractionResults = concat (map tasks taskExtractionResults)"

definition prioritizeTasks :: "durable \<Rightarrow> TaskService \<Rightarrow> extraction list \<Rightarrow> error + TaskService" where
  "prioritizeTasks db this taskExtractionResults =
     (let allTasks = flatTasks taskExtractionResults
      in prioritizeLoop db allTasks allTasks this)"

text \<open>The priority that the task map holds for an id, if it holds a task there.\<close>

definition storedPriority :: "TaskService \<Rightarrow> string \<Rightarrow> string option option" where
  "storedPriority this tid = map_option priority (this_tasks this tid)"

text \<open>
  Urgency as the data model orders it: \<open>HIGH\<close> before \<open>MEDIUM\<close> before \<open>LOW\<close>
  (the \<^verbatim>\<open>priorityOrder\<close> table of \<^verbatim>\<open>getTasks\<close>).
\<close>

definition priorityOrder :: "string \<Rightarrow> nat" where
  "priorityOrder p = (if p = ''HIGH'' then 0 else if p = ''MEDIUM'' then 1 else 2)"

text \<open>A task of the batch, as the extraction step hands it on.\<close>

definition mkTask :: "string \<Rightarrow> string \<Rightarrow> string \<Rightarrow> string option \<Rightarrow> string list \<Rightarrow> task" where
  "mkTask i d p dl deps =
     \<lparr> taskId = i, description = d, priority = Some p, deadline = dl,
       dependencies = Some deps, status = Some ''PENDING'',
       emailId = Some ''m1'', threadId = Some ''th1'', email_id = None, thread_id = None,
       isParent = None, childTaskIds = None, createdAt = Some 0, updatedAt = Some 0,
       missing = {''email_id'', ''thread_id'', ''isParent'', ''childTaskIds''} \<rparr>"

definition emptyService :: TaskService where
  "emptyService = \<lparr> this_tasks = Map.empty, this_tasksByEmail = Map.empty,
                     this_similarityCache = Map.empty, emitted = [], clock = 1 \<rparr>"

definition serviceWith :: "task list \<Rightarrow> TaskService" where
  "serviceWith ts = emptyService\<lparr> this_tasks := map_of (map (\<lambda>t. (taskId t, t)) ts) \<rparr>"

definition noDb :: durable where
  "noDb n i = None"

subsection \<open>Propagation as a sequence of updates\<close>

text \<open>
  The calls to \<^verbatim>\<open>updateTask\<close> that one run of \<^verbatim>\<open>prioritizeTasks\<close> makes depend on the
  batch only, since the loops read the batch objects and the updates replace objects of
  the task map. \<open>pendingUpdates\<close> lists the calls of one inner loop, \<open>allUpdates\<close> those
  of the outer loop, and \<open>applyUpdates\<close> makes the calls in order.
\<close>

definition pendingUpdates :: "task \<Rightarrow> task list \<Rightarrow> (string \<times> task) list" where
  "pendingUpdates t deps =
     map (\<lambda>depTask. (taskId depTask, withPriority depTask (priority t)))
       (filter (\<lambda>depTask. getPriorityValue (priority depTask) > getPriorityValue (priority t)) deps)"

definition allUpdates :: "task list \<Rightarrow> task list \<Rightarrow> (string \<times> task) list" where
  "allUpdates allTasks rest =
     concat (map (\<lambda>t. if hasDependencies t then pendingUpdates t (dependentTasks allTasks t) else [])
               rest)"

fun applyUpdates :: "durable \<Rightarrow> (string \<times> task) list \<Rightarrow> TaskService \<Rightarrow> error + TaskService" where
  "applyUpdates db [] this = Inr this"
| "applyUpdates db ((tid, updatedData) # us) this =
     (case updateTask db this tid updatedData of
        Inl e \<Rightarrow> Inl e
      | Inr (_, this1) \<Rightarrow> applyUpdates db us this1)"

text \<open>The stored priorities after a sequence of updates, from the priorities before it.\<close>

fun finalPriority ::
  "(string \<times> task) list \<Rightarrow> (string \<Rightarrow> string option option) \<Rightarrow> string \<Rightarrow> string option option" where
  "finalPriority [] f = f"
| "finalPriority ((tid, updatedData) # us) f = finalPriority us (f(tid := Some (priority updatedData)))"

text \<open>Example tasks: a prerequisite, and a task that names it as a dependency.\<close>

definition depLow :: task where
  "depLow = mkTask ''d'' ''Send report'' ''LOW'' None []"

definition depHigh :: task where
  "depHigh = mkTask ''d'' ''Send report'' ''HIGH'' None []"

definition reviewMedium :: task where
  "reviewMedium = mkTask ''t'' ''Review budget'' ''MEDIUM'' None [''Send report'']"

subsection \<open>Creating tasks and synthesizing a parent\<close>

text \<open>Decimal digits: a number in a fixed width, and a number in as many digits as it needs.\<close>

fun pad :: "nat \<Rightarrow> int \<Rightarrow> string" where
  "pad 0 n = []"
| "pad (Suc w) n = pad w (n div 10) @ [char_of (48 + n mod 10)]"

fun showNat :: "nat \<Rightarrow> string" where
  "showNat n = (if n < 10 then [char_of (48 + n)] else showNat (n div 10) @ [char_of (48 + n mod 10)])"

text \<open>
  \<^verbatim>\<open>createTask(taskData)\<close>. \<open>freshId\<close> is the id made from the time and a random number
  when \<open>taskData\<close> has none. The task is entered in the task map, listed under its
  message when it has one, and announced by a \<^verbatim>\<open>task:created\<close> event.
\<close>

text \<open>\<^verbatim>\<open>a || b\<close> where \<open>a\<close> is a time stamp or missing.\<close>

definition keep :: "'a option \<Rightarrow> 'a option \<Rightarrow> 'a option" where
  "keep old new = (case new of None \<Rightarrow> old | Some v \<Rightarrow> Some v)"

definition createTask :: "TaskService \<Rightarrow> string \<Rightarrow> task \<Rightarrow> task \<times> TaskService" where
  "createTask this freshId taskData =
     (let tid = (if taskId taskData \<noteq> [] then taskId taskData else freshId);
          t = taskData
                \<lparr> taskId := tid,
                  status := orElse (status taskData) (Some ''PENDING''),
                  createdAt := keep (Some (clock this)) (createdAt taskData),
                  updatedAt := keep (Some (clock this)) (updatedAt taskData),
                  missing := missing taskData -
                    {''id'', ''emailId'', ''threadId'', ''status'', ''createdAt'', ''updatedAt''} \<rparr>;
          byEmail = (case orElse (emailId t) None of
                       None \<Rightarrow> this_tasksByEmail this
                     | Some m \<Rightarrow>
                         (this_tasksByEmail this)
                           (m \<mapsto> (case this_tasksByEmail this m of None \<Rightarrow> [] | Some l \<Rightarrow> l) @ [tid]))
      in (t, this\<lparr> this_tasks := (this_tasks this)(tid \<mapsto> t),
                   this_tasksByEmail := byEmail,
                   emitted := emitted this @ [TaskCreated t],
                   clock := Suc (clock this) \<rparr>))"

text \<open>\<^verbatim>\<open>Combined task group (${taskGroup.length} tasks)\<close>\<close>

definition combinedDescription :: "task list \<Rightarrow> string" where
  "combinedDescription taskGroup = ''Combined task group ('' @ showNat (length taskGroup) @ '' tasks)''"

text \<open>
  \<^verbatim>\<open>generateParentTaskDescription\<close> of the AI service. \<open>summarize\<close> is the classifier's
  answer to the formatted prompt, trimmed, or the error of the call; the function
  itself catches the error and answers with the template.
\<close>

fun numbered :: "nat \<Rightarrow> task list \<Rightarrow> string list" where
  "numbered i [] = []"
| "numbered i (t # ts) = (showNat (i + 1) @ ''. '' @ description t) # numbered (i + 1) ts"

fun joinWith :: "string \<Rightarrow> string list \<Rightarrow> string" where
  "joinWith sep [] = []"
| "joinWith sep [x] = x"
| "joinWith sep (x # y # ys) = x @ sep @ joinWith sep (y # ys)"

definition generateParentTaskDescription :: "(string \<Rightarrow> error + string) \<Rightarrow> task list \<Rightarrow> string" where
  "generateParentTaskDescription summarize taskGroup =
     (case summarize (joinWith [CHR 0x0A] (numbered 0 taskGroup)) of
        Inl e \<Rightarrow> combinedDescription taskGroup
      | Inr content \<Rightarrow> content)"

text \<open>
  \<open>blankTask\<close> is the empty object literal, on which the literals below set their
  properties.

  \<^verbatim>\<open>createParentTask(taskGroup)\<close>. \<open>describe\<close> is the call to
  \<^verbatim>\<open>aiService.generateParentTaskDescription\<close> as the task service sees it; when it throws,
  the \<^verbatim>\<open>catch\<close> block creates a basic parent.
\<close>

definition blankTask :: task where
  "blankTask = \<lparr> taskId = [], description = [], priority = None, deadline = None,
                  dependencies = None, status = None, emailId = None, threadId = None,
                  email_id = None, thread_id = None, isParent = None, childTaskIds = None,
                  createdAt = None, updatedAt = None,
                  missing = {''id'', ''description'', ''priority'', ''deadline'', ''dependencies'',
                             ''status'', ''emailId'', ''threadId'', ''email_id'', ''thread_id'',
                             ''isParent'', ''childTaskIds'', ''createdAt'', ''updatedAt''} \<rparr>"

definition createParentTask ::
  "date_api \<Rightarrow> (task list \<Rightarrow> error + string) \<Rightarrow> TaskService \<Rightarrow> string \<Rightarrow> task list \<Rightarrow> task \<times> TaskService" where
  "createParentTask D describe this freshId taskGroup =
     (case describe taskGroup of
        Inr parentDescription \<Rightarrow>
          (let deadline' = getEarliestDeadline D taskGroup;
               priority' = getHighestPriority taskGroup
           in createTask this freshId
                (blankTask\<lparr> description := parentDescription, priority := priority',
                            deadline := deadline', isParent := Some True,
                            childTaskIds := Some (map taskId taskGroup), status := Some ''PENDING'',
                            createdAt := Some (clock this), updatedAt := Some (clock this),
                            missing := {''id'', ''dependencies'', ''emailId'', ''threadId'',
                                        ''email_id'', ''thread_id''} \<rparr>))
      | Inl e \<Rightarrow>
          createTask this freshId
            (blankTask\<lparr> description := combinedDescription taskGroup, priority := Some ''MEDIUM'',
                        deadline := None, isParent := Some True,
                        childTaskIds := Some (map taskId taskGroup), status := Some ''PENDING'',
                        missing := {''id'', ''dependencies'', ''emailId'', ''threadId'',
                                    ''email_id'', ''thread_id'', ''createdAt'', ''updatedAt''} \<rparr>))"

text \<open>The task service with the AI service of this repository behind it.\<close>

definition synthesizeParent ::
  "date_api \<Rightarrow> (string \<Rightarrow> error + string) \<Rightarrow> TaskService \<Rightarrow> string \<Rightarrow> task list \<Rightarrow> task \<times> TaskService" where
  "synthesizeParent D summarize this freshId taskGroup =
     createParentTask D (\<lambda>g. Inr (generateParentTaskDescription summarize g)) this freshId taskGroup"

subsection \<open>A calendar for the examples\<close>

text \<open>
  An instance of the \<^verbatim>\<open>Date\<close> parameter, used to evaluate examples only. It reads
  the date-only form \<^verbatim>\<open>YYYY-MM-DD\<close> (midnight UTC, in milliseconds since the epoch) and
  the form \<^verbatim>\<open>YYYY-MM-DDTHH:mm:ss.sssZ\<close> that it prints, for the years 0 to 9999. As in
  the engine that runs the service, a day of the month may be any number from 1 to 31 and
  counts on into the next month. The other forms that the engine reads are not covered:
  the instance takes them as unparseable.
\<close>

definition daysFromCivil :: "int \<Rightarrow> int \<Rightarrow> int \<Rightarrow> int" where
  "daysFromCivil y m d =
     (let y1 = (if m \<le> 2 then y - 1 else y);
          era = y1 div 400;
          yoe = y1 - era * 400;
          mp = (m + 9) mod 12;
          doy = (153 * mp + 2) div 5 + d - 1;
          doe = yoe * 365 + yoe div 4 - yoe div 100 + doy
      in era * 146097 + doe - 719468)"

definition civilFromDays :: "int \<Rightarrow> int \<times> int \<times> int" where
  "civilFromDays z =
     (let z1 = z + 719468;
          era = z1 div 146097;
          doe = z1 - era * 146097;
          yoe = (doe - doe div 1460 + doe div 36524 - doe div 146096) div 365;
          doy = doe - (365 * yoe + yoe div 4 - yoe div 100);
          mp = (5 * doy + 2) div 153;
          d = doy - (153 * mp + 2) div 5 + 1;
          m = (if mp < 10 then mp + 3 else mp - 9);
          y = yoe + era * 400
      in (if m \<le> 2 then y + 1 else y, m, d))"

definition isDigit :: "char \<Rightarrow> bool" where
  "isDigit c = (let n = (of_char c :: nat) in 48 \<le> n \<and> n \<le> 57)"

definition digitVal :: "char \<Rightarrow> int" where
  "digitVal c = int (of_char c) - 48"

fun isoDay :: "string \<Rightarrow> int option" where
  "isoDay [y1, y2, y3, y4, h1, m1, m2, h2, d1, d2] =
     (if h1 = CHR ''-'' \<and> h2 = CHR ''-'' \<and> list_all isDigit [y1, y2, y3, y4, m1, m2, d1, d2]
      then (let y = 1000 * digitVal y1 + 100 * digitVal y2 + 10 * digitVal y3 + digitVal y4;
                m = 10 * digitVal m1 + digitVal m2;
                d = 10 * digitVal d1 + digitVal d2
            in if 1 \<le> m \<and> m \<le> 12 \<and> 1 \<le> d \<and> d \<le> 31
               then Some (daysFromCivil y m d * 86400000) else None)
      else None)"
| "isoDay _ = None"

fun isoTimeOfDay :: "string \<Rightarrow> int option" where
  "isoTimeOfDay [h1, h2, c1, m1, m2, c2, s1, s2, c3, f1, f2, f3] =
     (if c1 = CHR '':'' \<and> c2 = CHR '':'' \<and> c3 = CHR ''.'' \<and>
         list_all isDigit [h1, h2, m1, m2, s1, s2, f1, f2, f3]
      then (let h = 10 * digitVal h1 + digitVal h2;
                m = 10 * digitVal m1 + digitVal m2;
                sec = 10 * digitVal s1 + digitVal s2;
                f = 100 * digitVal f1 + 10 * digitVal f2 + digitVal f3
            in if h \<le> 23 \<and> m \<le> 59 \<and> sec \<le> 59
               then Some (h * 3600000 + m * 60000 + sec * 1000 + f) else None)
      else None)"
| "isoTimeOfDay _ = None"

definition isoParse :: "string \<Rightarrow> int option" where
  "isoParse s =
     (if length s = 10 then isoDay s
      else if length s = 24 \<and> take 1 (drop 10 s) = ''T'' \<and> drop 23 s = ''Z''
      then (case (isoDay (take 10 s), isoTimeOfDay (take 12 (drop 11 s))) of
              (Some day, Some ms) \<Rightarrow> Some (day + ms)
            | _ \<Rightarrow> None)
      else None)"

definition isoGetTime :: "string \<Rightarrow> int option" where
  "isoGetTime s = (case isoParse s of None \<Rightarrow> None | Some ms \<Rightarrow> TimeClip ms)"

definition isoToISOString :: "int \<Rightarrow> string" where
  "isoToISOString ms =
     (let days = ms div 86400000;
          r = ms mod 86400000;
          (y, m, d) = civilFromDays days
      in pad 4 y @ ''-'' @ pad 2 m @ ''-'' @ pad 2 d @ ''T'' @
         pad 2 (r div 3600000) @ '':'' @ pad 2 (r div 60000 mod 60) @ '':'' @
         pad 2 (r div 1000 mod 60) @ ''.'' @ pad 3 (r mod 1000) @ ''Z'')"

definition isoDate :: date_api where
  "isoDate = \<lparr> getTime = isoGetTime, toISOString = isoToISOString \<rparr>"

text \<open>A cluster with the deadlines and the priorities of the specification's example.\<close>

definition clusterDeadlines :: "task list" where
  "clusterDeadlines =
     [mkTask ''a'' ''Send report'' ''MEDIUM'' (Some ''2024-01-10'') [],
      mkTask ''b'' ''Send the report'' ''LOW'' None [],
      mkTask ''c'' ''Send report now'' ''HIGH'' (Some ''2024-01-05'') []]"

text \<open>The time values of the deadlines that pass the filter of \<^verbatim>\<open>getEarliestDeadline\<close>.\<close>

definition validTimes :: "date_api \<Rightarrow> task list \<Rightarrow> int list" where
  "validTimes D ts = map (\<lambda>d. the (getTime D (the d))) (filter (validDeadline D) (map deadline ts))"

definition noSummary :: "string \<Rightarrow> error + string" where
  "noSummary prompt = Inl (ClassifierError ''unavailable'')"

section \<open>Task ids\<close>

text \<open>A string that neither starts nor ends with white space.\<close>

definition trimmed :: "string \<Rightarrow> bool" where
  "trimmed s = (s = [] \<or> (\<not> isSpace (hd s) \<and> \<not> isSpace (last s)))"

text \<open>
  \<^verbatim>\<open>generateTaskId\<close> of the AI service. The digest (SHA-256, in hexadecimal) is a
  parameter. \<open>orBlank\<close> is \<^verbatim>\<open>x || ""\<close>.
\<close>

definition orBlank :: "string option \<Rightarrow> string" where
  "orBlank x = (case x of None \<Rightarrow> [] | Some s \<Rightarrow> s)"

definition normalizedDescription :: "string \<Rightarrow> string" where
  "normalizedDescription d = collapseWs (trim (toLowerCase d))"

definition generateTaskId :: "(string \<Rightarrow> string) \<Rightarrow> task \<Rightarrow> string" where
  "generateTaskId sha256hex t =
     (let components = [orBlank (threadId t), normalizedDescription (description t),
                        orBlank (deadline t), orBlank (priority t)];
          hash = sha256hex (joinWith ''::'' components)
      in ''task_'' @ take 12 hash)"

text \<open>A stand-in digest for the examples.\<close>

definition plainDigest :: "string \<Rightarrow> string" where
  "plainDigest s = rev s"

section \<open>The durable store\<close>






text \<open>
  A listener is waiting for its \<^verbatim>\<open>SELECT\<close>, waiting for its \<^verbatim>\<open>INSERT\<close>, or done.
  \<open>stepListener\<close> runs the statement it is waiting for.
\<close>

datatype listener = Selecting task | Inserting task | Finished



text \<open>
  The \<^verbatim>\<open>task:created\<close> listeners that the emitted events have called, all of them
  waiting for their \<^verbatim>\<open>SELECT\<close>: \<^verbatim>\<open>createTask\<close> returns as soon as it has emitted its
  event.
\<close>

fun listeners :: "event list \<Rightarrow> listener list" where
  "listeners [] = []"
| "listeners (TaskCreated t # es) = Selecting t # listeners es"
| "listeners (TaskUpdated t old # es) = listeners es"



definition creation :: "string \<Rightarrow> string \<Rightarrow> string \<Rightarrow> string \<Rightarrow> task" where
  "creation i th d st = (mkTask i d ''MEDIUM'' None [])\<lparr> threadId := Some th, status := Some st \<rparr>"

section \<open>Clustering\<close>

text \<open>
  \<^verbatim>\<open>[taskId1, taskId2].sort().join("_")\<close>: the two ids in the order of their code units.
\<close>

definition getSimilarityCacheKey :: "string \<Rightarrow> string \<Rightarrow> string" where
  "getSimilarityCacheKey taskId1 taskId2 =
     joinWith ''_'' (if taskId2 < taskId1 then [taskId2, taskId1] else [taskId1, taskId2])"

text \<open>
  \<^verbatim>\<open>aiService.compareTaskSimilarity\<close> as the task service calls it: a promise that is
  fulfilled with a number or rejected.
\<close>

type_synonym comparator = "string \<Rightarrow> string \<Rightarrow> error + number"

text \<open>\<^verbatim>\<open>Promise.all\<close>: the results in order, or the first rejection.\<close>

fun Promise_all :: "(error + 'a) list \<Rightarrow> error + 'a list" where
  "Promise_all [] = Inr []"
| "Promise_all (Inl e # ps) = Inl e"
| "Promise_all (Inr v # ps) = (case Promise_all ps of Inl e \<Rightarrow> Inl e | Inr vs \<Rightarrow> Inr (v # vs))"

text \<open>
  The loop over \<open>j\<close>: a pair whose key is in the cache has its score copied to
  \<open>similarities\<close>, every other pair is queued as \<open>(task, otherTask, cacheKey)\<close>.
\<close>

fun collectComparisons ::
  "string set \<Rightarrow> (string \<rightharpoonup> number) \<Rightarrow> task \<Rightarrow> task list \<Rightarrow> (string \<rightharpoonup> number)
   \<Rightarrow> (task \<times> task \<times> string) list \<times> (string \<rightharpoonup> number)" where
  "collectComparisons processedTasks cache t [] similarities = ([], similarities)"
| "collectComparisons processedTasks cache t (otherTask # later) similarities =
     (if taskId otherTask \<in> processedTasks
      then collectComparisons processedTasks cache t later similarities
      else (let cacheKey = getSimilarityCacheKey (taskId t) (taskId otherTask)
            in case cache cacheKey of
                 Some v \<Rightarrow> collectComparisons processedTasks cache t later (similarities(cacheKey \<mapsto> v))
               | None \<Rightarrow>
                   (let (comparisons, sims) = collectComparisons processedTasks cache t later similarities
                    in ((t, otherTask, cacheKey) # comparisons, sims))))"

definition batchSize :: nat where
  "batchSize = 5"

definition storeResults :: "(string \<rightharpoonup> number) \<Rightarrow> (string \<times> number) list \<Rightarrow> (string \<rightharpoonup> number)" where
  "storeResults m results = foldl (\<lambda>acc (cacheKey, similarity). acc(cacheKey \<mapsto> similarity)) m results"

text \<open>
  The queued pairs go to the comparator in batches of five; a batch is awaited as a
  whole, and a rejection in it is thrown before any of its results is stored.
\<close>

function processBatches ::
  "comparator \<Rightarrow> (task \<times> task \<times> string) list \<Rightarrow> TaskService \<Rightarrow> (string \<rightharpoonup> number)
   \<Rightarrow> (error + (string \<rightharpoonup> number)) \<times> TaskService" where
  "processBatches compare comparisons this similarities =
     (if comparisons = [] then (Inr similarities, this)
      else (case Promise_all
                   (map (\<lambda>(t, otherTask, cacheKey).
                           case compare (description t) (description otherTask) of
                             Inl e \<Rightarrow> Inl e
                           | Inr similarity \<Rightarrow> Inr (cacheKey, similarity))
                      (take batchSize comparisons)) of
              Inl e \<Rightarrow> (Inl e, this)
            | Inr results \<Rightarrow>
                processBatches compare (drop batchSize comparisons)
                  (this\<lparr> this_similarityCache := storeResults (this_similarityCache this) results \<rparr>)
                  (storeResults similarities results)))"
  by pat_completeness auto
termination
  by (relation "measure (\<lambda>(compare, comparisons, this, similarities). length comparisons)")
     (auto simp: batchSize_def)

text \<open>The loop over \<open>i\<close>, which fills \<open>similarities\<close>.\<close>

fun precompute ::
  "comparator \<Rightarrow> string set \<Rightarrow> task list \<Rightarrow> TaskService \<Rightarrow> (string \<rightharpoonup> number)
   \<Rightarrow> (error + (string \<rightharpoonup> number)) \<times> TaskService" where
  "precompute compare processedTasks [] this similarities = (Inr similarities, this)"
| "precompute compare processedTasks (t # later) this similarities =
     (if taskId t \<in> processedTasks then precompute compare processedTasks later this similarities
      else (let (comparisons, sims1) =
                  collectComparisons processedTasks (this_similarityCache this) t later similarities
            in case processBatches compare comparisons this sims1 of
                 (Inl e, this1) \<Rightarrow> (Inl e, this1)
               | (Inr sims2, this1) \<Rightarrow> precompute compare processedTasks later this1 sims2))"

text \<open>\<^verbatim>\<open>similarity > 0.8\<close>, false for a key that \<open>similarities\<close> does not have.\<close>

definition similarTo :: "(string \<rightharpoonup> number) \<Rightarrow> string set \<Rightarrow> task \<Rightarrow> task \<Rightarrow> bool" where
  "similarTo similarities processedTasks t otherTask =
     (if taskId otherTask = taskId t \<or> taskId otherTask \<in> processedTasks then False
      else (case similarities (getSimilarityCacheKey (taskId t) (taskId otherTask)) of
              None \<Rightarrow> False
            | Some similarity \<Rightarrow> num_gt similarity (Num (8 / 10))))"

text \<open>The grouping loop: an anchor takes every task that is similar to it and still free.\<close>

fun groupLoop ::
  "(string \<rightharpoonup> number) \<Rightarrow> task list \<Rightarrow> task list \<Rightarrow> string set \<Rightarrow> task list list \<Rightarrow> task list list" where
  "groupLoop similarities allTasks [] processedTasks groups = groups"
| "groupLoop similarities allTasks (t # rest) processedTasks groups =
     (if taskId t \<in> processedTasks then groupLoop similarities allTasks rest processedTasks groups
      else (let similarTasks = filter (similarTo similarities processedTasks t) allTasks
            in if length similarTasks > 0
               then groupLoop similarities allTasks rest
                      (insert (taskId t) processedTasks \<union> taskId ` set similarTasks)
                      (groups @ [t # similarTasks])
               else groupLoop similarities allTasks rest (insert (taskId t) processedTasks)
                      (groups @ [[t]])))"

text \<open>The body of the \<^verbatim>\<open>try\<close> block of \<^verbatim>\<open>groupSimilarTasks\<close>.\<close>

definition groupSimilarTasks_try ::
  "comparator \<Rightarrow> TaskService \<Rightarrow> extraction list \<Rightarrow> (error + task list list) \<times> TaskService" where
  "groupSimilarTasks_try compare this taskExtractionResults =
     (let allTasks = flatTasks taskExtractionResults
      in case precompute compare {} allTasks this Map.empty of
           (Inl e, this1) \<Rightarrow> (Inl e, this1)
         | (Inr similarities, this1) \<Rightarrow>
             (Inr (groupLoop similarities allTasks allTasks {} []), this1))"

text \<open>
  The \<^verbatim>\<open>catch\<close> block is \<^verbatim>\<open>return allTasks.map((task) => [task])\<close>. The name
  \<^verbatim>\<open>allTasks\<close> is declared with \<^verbatim>\<open>const\<close> inside the \<^verbatim>\<open>try\<close> block, so it is not in
  scope in the \<^verbatim>\<open>catch\<close> block, and no outer scope declares it: evaluating it throws a
  \<^verbatim>\<open>ReferenceError\<close>, with which the function rejects.
\<close>

definition groupSimilarTasks ::
  "comparator \<Rightarrow> TaskService \<Rightarrow> extraction list \<Rightarrow> (error + task list list) \<times> TaskService" where
  "groupSimilarTasks compare this taskExtractionResults =
     (case groupSimilarTasks_try compare this taskExtractionResults of
        (Inr groups, this1) \<Rightarrow> (Inr groups, this1)
      | (Inl e, this1) \<Rightarrow> (Inl (ReferenceError ''allTasks is not defined''), this1))"

text \<open>The fallback that the comment in the \<^verbatim>\<open>catch\<close> block describes.\<close>

definition singletons :: "extraction list \<Rightarrow> task list list" where
  "singletons taskExtractionResults = map (\<lambda>t. [t]) (flatTasks taskExtractionResults)"

text \<open>A comparator that rejects, one that answers, and a batch of four tasks.\<close>

definition rejecting :: comparator where
  "rejecting d1 d2 = Inl (TypeError ''str.toLowerCase is not a function'')"

definition caseBlind :: comparator where
  "caseBlind d1 d2 = Inr (if toLowerCase d1 = toLowerCase d2 then Num 1 else Num 0)"

definition fourTasks :: "extraction list" where
  "fourTasks =
     [\<lparr> email = ''m1'',
        tasks = [mkTask ''t1'' ''Send report'' ''HIGH'' None [],
                 mkTask ''t2'' ''SEND REPORT'' ''MEDIUM'' None [],
                 mkTask ''t3'' ''Review budget'' ''LOW'' None [],
                 mkTask ''t4'' ''Book a room'' ''LOW'' None []] \<rparr>]"

section \<open>Properties of the quick filter and the comparator\<close>

lemma splitWs_go_nonempty: "splitWs_go inRun cur s \<noteq> []"
  by (induction s arbitrary: inRun cur) auto

lemma splitWs_nonempty: "splitWs s \<noteq> []"
  by (simp add: splitWs_def splitWs_go_nonempty)

lemma words_of_nonempty: "words_of s \<noteq> {}"
  by (simp add: words_of_def splitWs_nonempty)

lemma finite_words_of: "finite (words_of s)"
  by (simp add: words_of_def)

lemma card_union_words_pos: "0 < card (union_words a b)"
  by (simp add: union_words_def card_gt_0_iff finite_words_of words_of_nonempty)

lemma card_intersection_words_le: "card (intersection_words a b) \<le> card (union_words a b)"
  by (rule card_mono) (auto simp: union_words_def intersection_words_def finite_words_of)

lemma quickStringComparison_Num:
  "quickStringComparison a b = Num (of_nat (card (intersection_words a b)) / of_nat (card (union_words a b)))"
  using card_union_words_pos [of a b] by (simp add: quickStringComparison_def num_div_def)

lemma words_of_empty_normal: "normalize_str s = [] \<Longrightarrow> words_of s = {[]}"
  by (simp add: words_of_def splitWs_def)

text \<open>
  C10. \<^verbatim>\<open>quickStringComparison\<close> is total on strings: splitting gives at least one word,
  so the union of the two word sets is not empty, the division is by a positive size,
  and the result is a number between 0 and 1. Two strings that both normalise to the
  empty string (empty, or punctuation only) compare as exactly 1.
\<close>

theorem quickStringComparison_total:
  "splitWs (normalize_str a) \<noteq> [] \<and> union_words a b \<noteq> {} \<and> card (union_words a b) \<noteq> 0 \<and>
   (\<exists>r. quickStringComparison a b = Num r \<and> 0 \<le> r \<and> r \<le> 1) \<and>
   (normalize_str a = [] \<and> normalize_str b = [] \<longrightarrow> quickStringComparison a b = Num 1)"
proof -
  have pos: "0 < card (union_words a b)" by (rule card_union_words_pos)
  have le: "card (intersection_words a b) \<le> card (union_words a b)" by (rule card_intersection_words_le)
  have ne: "union_words a b \<noteq> {}" using pos by auto
  let ?r = "(of_nat (card (intersection_words a b)) / of_nat (card (union_words a b)) :: rat)"
  have r0: "0 \<le> ?r" by simp
  have r1: "?r \<le> 1" using pos le by (simp add: divide_le_eq)
  have one: "quickStringComparison a b = Num 1" if "normalize_str a = []" "normalize_str b = []"
  proof -
    have "intersection_words a b = {[]}" "union_words a b = {[]}"
      using that by (auto simp: intersection_words_def union_words_def words_of_empty_normal)
    then show ?thesis by (simp add: quickStringComparison_def num_div_def)
  qed
  show ?thesis
    using pos ne r0 r1 one quickStringComparison_Num [of a b] splitWs_nonempty [of "normalize_str a"]
    by blast
qed

theorem quickStringComparison_total_witness:
  "normalize_str ''?!'' = [] \<and> normalize_str '''' = [] \<and> quickStringComparison ''?!'' '''' = Num 1"
proof -
  have n: "normalize_str ''?!'' = [] \<and> normalize_str '''' = []" by code_simp
  show ?thesis using n quickStringComparison_total [of "''?!''" "''''"] by blast
qed

text \<open>
  C6. When the quick estimate is strictly below 0.3 the comparison returns 0, when it is
  strictly above 0.9 it returns 1, and in both cases the classifier is not called.
\<close>

theorem compareTaskSimilarity_short_circuit:
  "(num_lt (quickStringComparison a b) (Num (3 / 10)) \<longrightarrow>
      compareTaskSimilarity classify a b = (Inr (Num 0), 0)) \<and>
   (num_gt (quickStringComparison a b) (Num (9 / 10)) \<longrightarrow>
      compareTaskSimilarity classify a b = (Inr (Num 1), 0))"
  using quickStringComparison_Num [of a b]
  by (auto simp: compareTaskSimilarity_def compareTaskSimilarity_try_def num_gt_def Let_def)

theorem compareTaskSimilarity_short_circuit_witness:
  "num_lt (quickStringComparison ''send report'' ''review the budget today'') (Num (3 / 10)) \<and>
   compareTaskSimilarity unavailable ''send report'' ''review the budget today'' = (Inr (Num 0), 0) \<and>
   num_gt (quickStringComparison ''Send report!'' ''send  REPORT'') (Num (9 / 10)) \<and>
   compareTaskSimilarity unavailable ''Send report!'' ''send  REPORT'' = (Inr (Num 1), 0)"
proof -
  have lo: "num_lt (quickStringComparison ''send report'' ''review the budget today'') (Num (3 / 10))"
    by code_simp
  have hi: "num_gt (quickStringComparison ''Send report!'' ''send  REPORT'') (Num (9 / 10))"
    by code_simp
  show ?thesis
    using lo hi compareTaskSimilarity_short_circuit [of "''send report''" "''review the budget today''" unavailable]
      compareTaskSimilarity_short_circuit [of "''Send report!''" "''send  REPORT''" unavailable]
    by blast
qed

text \<open>
  C7. The classifier is called exactly when the quick estimate lies in \<open>[0.3, 0.9]\<close>. If
  that call throws, or gives a score that is \<open>NaN\<close>, below 0 or above 1, the comparison
  returns the quick estimate; and in every case it returns a number, never an error.
\<close>

theorem compareTaskSimilarity_fallback:
  "(\<exists>v. fst (compareTaskSimilarity classify a b) = Inr v) \<and>
   (\<not> num_lt (quickStringComparison a b) (Num (3 / 10)) \<and>
    \<not> num_gt (quickStringComparison a b) (Num (9 / 10)) \<and>
    ((\<exists>e. classify a b = Inl e) \<or> (\<exists>s. classify a b = Inr s \<and> invalidScore s))
    \<longrightarrow> compareTaskSimilarity classify a b = (Inr (quickStringComparison a b), 1)) \<and>
   (snd (compareTaskSimilarity classify a b) = 1 \<longleftrightarrow>
      \<not> num_lt (quickStringComparison a b) (Num (3 / 10)) \<and>
      \<not> num_gt (quickStringComparison a b) (Num (9 / 10)))"
  by (auto simp: compareTaskSimilarity_def compareTaskSimilarity_try_def orEmpty_def
      invalidScore_def Let_def split: sum.splits prod.splits)

theorem compareTaskSimilarity_fallback_witness:
  "\<not> num_lt (quickStringComparison ''send the report'' ''send report today'') (Num (3 / 10)) \<and>
   \<not> num_gt (quickStringComparison ''send the report'' ''send report today'') (Num (9 / 10)) \<and>
   compareTaskSimilarity unavailable ''send the report'' ''send report today'' = (Inr (Num (1 / 2)), 1) \<and>
   compareTaskSimilarity outOfRange ''send the report'' ''send report today'' = (Inr (Num (1 / 2)), 1)"
proof -
  have q: "quickStringComparison ''send the report'' ''send report today'' = Num (1 / 2)"
    by code_simp
  have bad: "invalidScore (Num (3 / 2))"
    by (simp add: invalidScore_def num_gt_def)
  show ?thesis
    using compareTaskSimilarity_fallback [of unavailable "''send the report''" "''send report today''"]
      compareTaskSimilarity_fallback [of outOfRange "''send the report''" "''send report today''"]
    by (simp add: q bad unavailable_def outOfRange_def num_gt_def)
qed

section \<open>Properties of priority propagation\<close>

lemma escalate_applyUpdates:
  "escalate db t deps this = applyUpdates db (pendingUpdates t deps) this"
  by (induction deps arbitrary: this) (auto simp: pendingUpdates_def split: sum.splits)

lemma applyUpdates_append:
  "applyUpdates db (us @ vs) this =
     (case applyUpdates db us this of Inl e \<Rightarrow> Inl e | Inr this1 \<Rightarrow> applyUpdates db vs this1)"
  by (induction us arbitrary: this) (auto split: sum.splits)

lemma prioritizeLoop_applyUpdates:
  "prioritizeLoop db allTasks rest this = applyUpdates db (allUpdates allTasks rest) this"
  by (induction rest arbitrary: this)
     (auto simp: allUpdates_def applyUpdates_append escalate_applyUpdates split: sum.splits)

lemma priority_spread:
  "priority (spread t u) = (if ''priority'' \<in> missing u then priority t else priority u)"
  by (simp add: spread_def pick_def)

lemma updateTask_Inr:
  assumes "updateTask db this tid u = Inr (t', this')"
  shows "\<exists>t this1. findTask db this tid = (Some t, this1) \<and>
           priority t' = priority (spread t u) \<and>
           this_tasks this' = (this_tasks this1)(tid \<mapsto> t')"
proof (cases "findTask db this tid")
  case (Pair found this1)
  show ?thesis
  proof (cases found)
    case None
    with Pair assms show ?thesis by (simp add: updateTask_def)
  next
    case (Some t)
    with Pair assms have "findTask db this tid = (Some t, this1)"
      and "priority t' = priority (spread t u)"
      and "this_tasks this' = (this_tasks this1)(tid \<mapsto> t')"
      by (auto simp: updateTask_def Let_def)
    then show ?thesis by blast
  qed
qed

lemma findTask_tasks:
  assumes "findTask db this tid = (Some t, this1)"
  shows "this_tasks this1 = this_tasks this \<or> this_tasks this1 = (this_tasks this)(tid \<mapsto> t)"
  using assms by (auto simp: findTask_def loadTaskFromDb_def split: option.splits)

lemma updateTask_map:
  assumes "updateTask db this tid u = Inr (t', this')"
  shows "this_tasks this' = (this_tasks this)(tid \<mapsto> t')"
proof -
  from updateTask_Inr [OF assms] obtain t this1 where
    f: "findTask db this tid = (Some t, this1)"
    and m: "this_tasks this' = (this_tasks this1)(tid \<mapsto> t')" by blast
  from findTask_tasks [OF f] m show ?thesis by auto
qed

lemma updateTask_priority:
  assumes "updateTask db this tid u = Inr (t', this')" and "''priority'' \<notin> missing u"
  shows "priority t' = priority u"
  using updateTask_Inr [OF assms(1)] assms(2) by (auto simp: priority_spread)

lemma updateTask_stored:
  assumes "updateTask db this tid u = Inr (t', this')" and "''priority'' \<notin> missing u"
  shows "storedPriority this' = (storedPriority this)(tid := Some (priority u))"
  using updateTask_map [OF assms(1)] updateTask_priority [OF assms]
  by (auto simp: storedPriority_def fun_eq_iff)

lemma spread_overwrites:
  "''deadline'' \<notin> missing u \<Longrightarrow> deadline (spread t u) = deadline u"
  "''deadline'' \<in> missing u \<Longrightarrow> deadline (spread t u) = deadline t"
  by (simp_all add: spread_def pick_def)

lemma updateTask_dom:
  assumes "updateTask db this tid u = Inr (t', this')"
  shows "dom (this_tasks this') = insert tid (dom (this_tasks this))"
  using updateTask_map [OF assms] by simp

lemma updateTask_present:
  assumes "tid \<in> dom (this_tasks this)"
  shows "\<exists>r. updateTask db this tid u = Inr r"
proof -
  from assms obtain t where "this_tasks this tid = Some t" by auto
  then show ?thesis by (simp add: updateTask_def findTask_def Let_def)
qed

lemma pendingUpdates_priority:
  "(tid, u) \<in> set (pendingUpdates t deps) \<Longrightarrow> ''priority'' \<notin> missing u"
  by (auto simp: pendingUpdates_def withPriority_def)

lemma allUpdates_priority:
  "(tid, u) \<in> set (allUpdates allTasks rest) \<Longrightarrow> ''priority'' \<notin> missing u"
  by (auto simp: allUpdates_def dest: pendingUpdates_priority split: if_splits)

lemma applyUpdates_stored:
  assumes "applyUpdates db us this = Inr this'"
    and "\<forall>(tid, u) \<in> set us. ''priority'' \<notin> missing u"
  shows "storedPriority this' = finalPriority us (storedPriority this)"
  using assms
proof (induction us arbitrary: this)
  case Nil
  then show ?case by simp
next
  case (Cons a us)
  obtain tid u where a: "a = (tid, u)" by (cases a)
  from Cons.prems(2) a have p: "''priority'' \<notin> missing u" by auto
  from Cons.prems(1) a obtain t1 this1 where
    u1: "updateTask db this tid u = Inr (t1, this1)" and rest: "applyUpdates db us this1 = Inr this'"
    by (auto split: sum.splits)
  have "storedPriority this' = finalPriority us (storedPriority this1)"
    using Cons.IH [OF rest] Cons.prems(2) by simp
  then show ?case using updateTask_stored [OF u1 p] a by simp
qed

lemma applyUpdates_dom:
  assumes "applyUpdates db us this = Inr this'"
  shows "dom (this_tasks this') = fst ` set us \<union> dom (this_tasks this)"
  using assms
proof (induction us arbitrary: this)
  case Nil
  then show ?case by simp
next
  case (Cons a us)
  obtain tid u where a: "a = (tid, u)" by (cases a)
  from Cons.prems a obtain t1 this1 where
    u1: "updateTask db this tid u = Inr (t1, this1)" and rest: "applyUpdates db us this1 = Inr this'"
    by (auto split: sum.splits)
  show ?case using Cons.IH [OF rest] updateTask_dom [OF u1] a by auto
qed

lemma applyUpdates_present:
  assumes "fst ` set us \<subseteq> dom (this_tasks this)"
  shows "\<exists>this'. applyUpdates db us this = Inr this'"
  using assms
proof (induction us arbitrary: this)
  case Nil
  then show ?case by simp
next
  case (Cons a us)
  obtain tid u where a: "a = (tid, u)" by (cases a)
  from Cons.prems a have "tid \<in> dom (this_tasks this)" by auto
  then obtain t1 this1 where u1: "updateTask db this tid u = Inr (t1, this1)"
    using updateTask_present by (metis surj_pair)
  have "fst ` set us \<subseteq> dom (this_tasks this1)"
    using Cons.prems updateTask_dom [OF u1] by auto
  from Cons.IH [OF this] show ?case using u1 a by simp
qed

lemma finalPriority_untouched:
  "j \<notin> fst ` set us \<Longrightarrow> finalPriority us f j = f j"
  by (induction us arbitrary: f) auto

lemma finalPriority_touched:
  "j \<in> fst ` set us \<Longrightarrow> finalPriority us f j = finalPriority us g j"
proof (induction us arbitrary: f g)
  case Nil
  then show ?case by simp
next
  case (Cons a us)
  obtain tid u where a: "a = (tid, u)" by (cases a)
  show ?case
  proof (cases "j \<in> fst ` set us")
    case True
    then show ?thesis using Cons.IH a by simp
  next
    case False
    with Cons.prems a have "j = tid" by auto
    then show ?thesis using False a by (simp add: finalPriority_untouched)
  qed
qed

lemma finalPriority_twice:
  "finalPriority us (finalPriority us f) = finalPriority us f"
proof
  fix j
  show "finalPriority us (finalPriority us f) j = finalPriority us f j"
  proof (cases "j \<in> fst ` set us")
    case True
    then show ?thesis by (rule finalPriority_touched)
  next
    case False
    then show ?thesis by (simp add: finalPriority_untouched)
  qed
qed

text \<open>
  C3. A second run of \<^verbatim>\<open>prioritizeTasks\<close> on the same batch, after a first run that
  completed, completes too (whatever the durable store answers by then) and leaves every
  priority of the task map as the first run left it.
\<close>

theorem prioritizeTasks_idempotent:
  assumes "prioritizeTasks db this batch = Inr this1"
  shows "\<exists>this2. prioritizeTasks db' this1 batch = Inr this2 \<and>
           (\<forall>tid. storedPriority this2 tid = storedPriority this1 tid)"
proof -
  let ?us = "allUpdates (flatTasks batch) (flatTasks batch)"
  have run1: "applyUpdates db ?us this = Inr this1"
    using assms by (simp add: prioritizeTasks_def prioritizeLoop_applyUpdates Let_def)
  have wf: "\<forall>(tid, u) \<in> set ?us. ''priority'' \<notin> missing u"
    using allUpdates_priority by blast
  have "fst ` set ?us \<subseteq> dom (this_tasks this1)"
    using applyUpdates_dom [OF run1] by simp
  then obtain this2 where run2: "applyUpdates db' ?us this1 = Inr this2"
    using applyUpdates_present by blast
  have "storedPriority this2 = finalPriority ?us (finalPriority ?us (storedPriority this))"
    using applyUpdates_stored [OF run2 wf] applyUpdates_stored [OF run1 wf] by simp
  then have "storedPriority this2 = storedPriority this1"
    using applyUpdates_stored [OF run1 wf] by (simp add: finalPriority_twice)
  then show ?thesis using run2
    by (simp add: prioritizeTasks_def prioritizeLoop_applyUpdates Let_def)
qed

theorem prioritizeTasks_idempotent_witness:
  "\<exists>this1 this2.
     prioritizeTasks noDb (serviceWith [depLow, reviewMedium])
       [\<lparr>email = ''m1'', tasks = [depLow, reviewMedium]\<rparr>] = Inr this1 \<and>
     storedPriority this1 ''d'' = Some (Some ''MEDIUM'') \<and>
     prioritizeTasks noDb this1 [\<lparr>email = ''m1'', tasks = [depLow, reviewMedium]\<rparr>] = Inr this2 \<and>
     (\<forall>tid. storedPriority this2 tid = storedPriority this1 tid)"
proof -
  let ?b = "[\<lparr>email = ''m1'', tasks = [depLow, reviewMedium]\<rparr>]"
  let ?r = "prioritizeTasks noDb (serviceWith [depLow, reviewMedium]) ?b"
  have ok: "(case ?r of Inl e \<Rightarrow> False | Inr s \<Rightarrow> storedPriority s ''d'' = Some (Some ''MEDIUM''))"
    by code_simp
  then obtain this1 where r: "?r = Inr this1" and p: "storedPriority this1 ''d'' = Some (Some ''MEDIUM'')"
    by (cases ?r) auto
  from prioritizeTasks_idempotent [OF r, of noDb] p r show ?thesis by blast
qed

text \<open>
  C1. The claim fails on the code: a dependency stored as \<open>HIGH\<close> is rewritten to the
  priority of a \<open>MEDIUM\<close> task that depends on it, because \<^verbatim>\<open>getPriorityValue\<close> ranks
  \<open>HIGH\<close> as 3, behind \<open>LOW\<close>. The run below starts with the dependency stored as
  \<open>HIGH\<close> and ends with it stored as \<open>MEDIUM\<close>.
\<close>

theorem prioritizeTasks_downgrades_HIGH:
  "storedPriority (serviceWith [depHigh, reviewMedium]) ''d'' = Some (Some ''HIGH'') \<and>
   (case prioritizeTasks noDb (serviceWith [depHigh, reviewMedium])
           [\<lparr>email = ''m1'', tasks = [depHigh, reviewMedium]\<rparr>] of
      Inl e \<Rightarrow> False
    | Inr this1 \<Rightarrow> storedPriority this1 ''d'' = Some (Some ''MEDIUM'')) \<and>
   priorityOrder ''HIGH'' < priorityOrder ''MEDIUM''"
  by code_simp

section \<open>Properties of parent synthesis\<close>

text \<open>
  C9. The claim fails on the code: for members with priorities \<open>MEDIUM\<close>, \<open>LOW\<close>,
  \<open>HIGH\<close> the synthesized priority is \<open>MEDIUM\<close>, and for a cluster of \<open>HIGH\<close> tasks
  only it is \<open>LOW\<close>, since \<^verbatim>\<open>priorityMap[priority] || 3\<close> turns the rank 0 of \<open>HIGH\<close>
  into 3.
\<close>

theorem getHighestPriority_misses_HIGH:
  "getPriorityValue (Some ''HIGH'') = 3 \<and>
   getHighestPriority [mkTask ''a'' ''A'' ''MEDIUM'' None [], mkTask ''b'' ''B'' ''LOW'' None [],
                       mkTask ''c'' ''C'' ''HIGH'' None []] = Some ''MEDIUM'' \<and>
   getHighestPriority [mkTask ''c'' ''C'' ''HIGH'' None [], mkTask ''e'' ''E'' ''HIGH'' None []] = Some ''LOW'' \<and>
   map priority clusterDeadlines = [Some ''MEDIUM'', Some ''LOW'', Some ''HIGH''] \<and>
   priority (fst (synthesizeParent isoDate noSummary emptyService ''p1'' clusterDeadlines)) = Some ''MEDIUM''"
  by code_simp

lemma foldl_min_Min: "foldl min a xs = Min (insert a (set xs))"
proof (induction xs arbitrary: a)
  case Nil
  then show ?case by simp
next
  case (Cons x xs)
  have "Min (insert (min a x) (set xs)) = Min (insert a (insert x (set xs)))"
    by (cases "set xs = {}") (auto simp: min.assoc)
  then show ?case using Cons.IH by simp
qed

lemma Math_min_Min: "xs \<noteq> [] \<Longrightarrow> Math_min xs = Min (set xs)"
  by (cases xs) (simp_all add: Math_min_def foldl_min_Min)

lemma set_validTimes:
  "set (validTimes D ts) = {x. \<exists>t \<in> set ts. \<exists>s. deadline t = Some s \<and> s \<noteq> [] \<and> getTime D s = Some x}"
  by (force simp: validTimes_def validDeadline_def image_iff split: option.splits)

lemma getEarliestDeadline_validTimes:
  assumes "timeValues D"
  shows "getEarliestDeadline D ts =
     (if validTimes D ts = [] then None else Some (toISOString D (Min (set (validTimes D ts)))))"
proof (cases "validTimes D ts = []")
  case True
  then show ?thesis by (simp add: getEarliestDeadline_def validTimes_def Let_def)
next
  case False
  then have "Min (set (validTimes D ts)) \<in> set (validTimes D ts)" by simp
  then obtain s where "getTime D s = Some (Min (set (validTimes D ts)))"
    unfolding set_validTimes by blast
  with assms have "TimeClip (Min (set (validTimes D ts))) = Some (Min (set (validTimes D ts)))"
    by (simp add: timeValues_def)
  moreover have "Math_min (validTimes D ts) = Min (set (validTimes D ts))"
    using False by (rule Math_min_Min)
  ultimately show ?thesis using False
    by (simp add: getEarliestDeadline_def validTimes_def Let_def)
qed

lemma TimeClip_idem: "TimeClip a = Some b \<Longrightarrow> TimeClip b = Some b"
  by (simp add: TimeClip_def split: if_splits)

lemma timeValues_isoDate: "timeValues isoDate"
proof -
  have "TimeClip ms = Some ms" if "isoGetTime s = Some ms" for s ms
    using that by (cases "isoParse s") (simp_all add: isoGetTime_def TimeClip_idem)
  then show ?thesis by (simp add: timeValues_def isoDate_def)
qed

lemma isoDate_examples:
  "getTime isoDate ''2024-01-05'' = Some 1704412800000 \<and>
   getTime isoDate ''2024-01-05T00:00:00.000Z'' = Some 1704412800000 \<and>
   getTime isoDate ''2024-02-30'' = getTime isoDate ''2024-03-01'' \<and>
   getTime isoDate ''2024-13-01'' = None \<and>
   getTime isoDate ''next week'' = None \<and>
   toISOString isoDate 1730625805123 = ''2024-11-03T09:23:25.123Z''"
  by code_simp

lemma createTask_deadline: "deadline (fst (createTask this freshId taskData)) = deadline taskData"
  by (simp add: createTask_def Let_def)

lemma synthesizeParent_deadline:
  "deadline (fst (synthesizeParent D summarize this freshId g)) = getEarliestDeadline D g"
  by (simp add: synthesizeParent_def createParentTask_def createTask_deadline Let_def)

text \<open>
  C4, as the code has it. For every calendar that answers with time values, the deadline
  of the synthesized parent is \<^verbatim>\<open>null\<close> when no member has a deadline that the calendar
  can read, and otherwise the ISO timestamp (\<^verbatim>\<open>toISOString\<close>) of the least time value
  among the members' readable deadlines; missing, empty and unreadable deadlines do not
  enter, and nothing is thrown.
\<close>

theorem parent_deadline_earliest:
  assumes "timeValues D"
  shows "deadline (fst (synthesizeParent D summarize this freshId g)) =
     (if validTimes D g = [] then None else Some (toISOString D (Min (set (validTimes D g))))) \<and>
   set (validTimes D g) =
     {x. \<exists>t \<in> set g. \<exists>s. deadline t = Some s \<and> s \<noteq> [] \<and> getTime D s = Some x}"
  using synthesizeParent_deadline [of D summarize this freshId g]
    getEarliestDeadline_validTimes [OF assms, of g] set_validTimes [of D g]
  by simp

theorem parent_deadline_earliest_witness:
  "validTimes isoDate clusterDeadlines \<noteq> [] \<and>
   deadline (fst (synthesizeParent isoDate noSummary emptyService ''p1'' clusterDeadlines)) =
     Some ''2024-01-05T00:00:00.000Z''"
proof -
  have v: "validTimes isoDate clusterDeadlines = [1704844800000, 1704412800000]"
    by code_simp
  have iso: "toISOString isoDate 1704412800000 = ''2024-01-05T00:00:00.000Z''"
    by code_simp
  show ?thesis
    using parent_deadline_earliest [OF timeValues_isoDate, of noSummary emptyService "''p1''" clusterDeadlines]
    by (simp add: v iso)
qed

text \<open>
  The claim as it is written fails at its own example: for the member deadlines
  \<open>2024-01-10\<close>, none and \<open>2024-01-05\<close> the synthesized deadline is the timestamp
  \<open>2024-01-05T00:00:00.000Z\<close>, not the string \<open>2024-01-05\<close>.
\<close>

theorem parent_deadline_counterexample:
  "map deadline clusterDeadlines = [Some ''2024-01-10'', None, Some ''2024-01-05''] \<and>
   getEarliestDeadline isoDate clusterDeadlines = Some ''2024-01-05T00:00:00.000Z'' \<and>
   deadline (fst (synthesizeParent isoDate noSummary emptyService ''p1'' clusterDeadlines)) \<noteq>
     Some ''2024-01-05''"
  by code_simp

section \<open>Properties of task ids\<close>

lemma of_char_toLowerChar:
  "(of_char (toLowerChar c) :: nat) =
     (if 65 \<le> (of_char c :: nat) \<and> (of_char c :: nat) \<le> 90 then of_char c + 32 else of_char c)"
  by (simp add: toLowerChar_def Let_def)

lemma isSpace_toLowerChar: "isSpace (toLowerChar c) = isSpace c"
  by (auto simp: isSpace_def of_char_toLowerChar Let_def)

lemma toLowerChar_idem: "toLowerChar (toLowerChar c) = toLowerChar c"
proof (cases "65 \<le> (of_char c :: nat) \<and> (of_char c :: nat) \<le> 90")
  case True
  then have "\<not> (65 \<le> (of_char (toLowerChar c) :: nat) \<and> (of_char (toLowerChar c) :: nat) \<le> 90)"
    by (simp add: of_char_toLowerChar)
  then show ?thesis by (auto simp add: toLowerChar_def [of "toLowerChar c"] Let_def)
next
  case False
  then show ?thesis by (auto simp add: toLowerChar_def Let_def)
qed

lemma toLowerChar_blank: "toLowerChar (CHR '' '') = CHR '' ''"
  by (simp add: toLowerChar_def)

lemma toLowerCase_idem: "toLowerCase (toLowerCase s) = toLowerCase s"
  by (simp add: toLowerCase_def toLowerChar_idem)

lemma dropWhile_isSpace_toLowerCase:
  "dropWhile isSpace (toLowerCase s) = toLowerCase (dropWhile isSpace s)"
  by (induction s) (simp_all add: toLowerCase_def isSpace_toLowerChar)

lemma toLowerCase_rev: "toLowerCase (rev s) = rev (toLowerCase s)"
  by (simp add: toLowerCase_def rev_map)

lemma toLowerCase_trim: "toLowerCase (trim s) = trim (toLowerCase s)"
  by (simp add: trim_def dropWhile_isSpace_toLowerCase toLowerCase_rev [symmetric])

lemma toLowerCase_collapseWs_go:
  "toLowerCase (collapseWs_go b s) = collapseWs_go b (toLowerCase s)"
  by (induction s arbitrary: b) (simp_all add: toLowerCase_def isSpace_toLowerChar toLowerChar_blank)

lemma collapseWs_go_idem:
  "collapseWs_go False (collapseWs_go False s) = collapseWs_go False s \<and>
   collapseWs_go True (collapseWs_go True s) = collapseWs_go True s"
  by (induction s) (auto simp: isSpace_def)

lemma collapseWs_go_last:
  "s \<noteq> [] \<Longrightarrow> \<not> isSpace (last s) \<Longrightarrow>
     collapseWs_go b s \<noteq> [] \<and> last (collapseWs_go b s) = last s"
  by (induction s arbitrary: b) (auto split: if_splits)

lemma dropWhile_hd_id: "xs \<noteq> [] \<Longrightarrow> \<not> P (hd xs) \<Longrightarrow> dropWhile P xs = xs"
  by (cases xs) simp_all

lemma last_dropWhile: "dropWhile P xs \<noteq> [] \<Longrightarrow> last (dropWhile P xs) = last xs"
  by (induction xs) (auto split: if_splits)

lemma trimmed_trim: "trimmed (trim s)"
proof -
  let ?a = "dropWhile isSpace s"
  let ?b = "dropWhile isSpace (rev ?a)"
  show ?thesis
  proof (cases "?b = []")
    case True
    then show ?thesis by (simp add: trimmed_def trim_def)
  next
    case False
    then have hb: "\<not> isSpace (hd ?b)" by (rule hd_dropWhile)
    have a: "?a \<noteq> []"
    proof
      assume "?a = []"
      then have "?b = []" by (simp only: rev.simps(1) dropWhile.simps(1))
      with False show False by simp
    qed
    then have ha: "\<not> isSpace (hd ?a)" by (rule hd_dropWhile)
    have "last ?b = last (rev ?a)" using False by (rule last_dropWhile)
    then have "hd (rev ?b) = hd ?a" using False a by (simp add: hd_rev last_rev)
    moreover have "last (rev ?b) = hd ?b" using False by (simp add: last_rev)
    ultimately show ?thesis using ha hb by (simp add: trimmed_def trim_def)
  qed
qed

lemma trim_trimmed: "trimmed s \<Longrightarrow> trim s = s"
proof (cases "s = []")
  case True
  then show ?thesis by (simp add: trim_def)
next
  case False
  assume "trimmed s"
  with False have h: "\<not> isSpace (hd s)" and l: "\<not> isSpace (last s)" by (simp_all add: trimmed_def)
  from False h have a: "dropWhile isSpace s = s" by (rule dropWhile_hd_id)
  from False l have "dropWhile isSpace (rev s) = rev s"
    by (intro dropWhile_hd_id) (simp_all add: hd_rev)
  with a show ?thesis by (simp add: trim_def)
qed

lemma trimmed_collapseWs: "trimmed s \<Longrightarrow> trimmed (collapseWs s)"
proof (cases "s = []")
  case True
  then show ?thesis by (simp add: collapseWs_def trimmed_def)
next
  case False
  assume "trimmed s"
  with False have h: "\<not> isSpace (hd s)" and l: "\<not> isSpace (last s)" by (simp_all add: trimmed_def)
  from False h have "hd (collapseWs s) = hd s" by (cases s) (simp_all add: collapseWs_def)
  moreover from collapseWs_go_last [OF False l]
  have "collapseWs s \<noteq> []" "last (collapseWs s) = last s" by (simp_all add: collapseWs_def)
  ultimately show ?thesis using h l by (simp add: trimmed_def)
qed

lemma normalizedDescription_idem:
  "normalizedDescription (normalizedDescription d) = normalizedDescription d"
proof -
  let ?x = "trim (toLowerCase d)"
  have "toLowerCase (collapseWs ?x) = collapseWs ?x"
    by (simp add: collapseWs_def toLowerCase_collapseWs_go toLowerCase_trim toLowerCase_idem)
  moreover have "trim (collapseWs ?x) = collapseWs ?x"
    by (rule trim_trimmed, rule trimmed_collapseWs, rule trimmed_trim)
  moreover have "collapseWs (collapseWs ?x) = collapseWs ?x"
    by (simp add: collapseWs_def collapseWs_go_idem)
  ultimately show ?thesis by (simp add: normalizedDescription_def)
qed

text \<open>
  C8. Two tasks with the same thread id, deadline and priority, whose descriptions are
  equal after lower-casing, trimming and collapsing white space, get the same id; and a
  task gets the id of the task that carries its normalised description in its place.
  The id is a function of these four values only.
\<close>

theorem generateTaskId_normalized:
  assumes "threadId t1 = threadId t2" and "deadline t1 = deadline t2"
    and "priority t1 = priority t2"
    and "normalizedDescription (description t1) = normalizedDescription (description t2)"
  shows "generateTaskId sha256hex t1 = generateTaskId sha256hex t2 \<and>
         generateTaskId sha256hex (t1\<lparr>description := normalizedDescription (description t1)\<rparr>) =
         generateTaskId sha256hex t1"
  using assms by (simp add: generateTaskId_def normalizedDescription_idem)

theorem generateTaskId_normalized_witness:
  "normalizedDescription ''  Send   the REPORT '' = ''send the report'' \<and>
   generateTaskId plainDigest (mkTask ''x'' ''  Send   the REPORT '' ''LOW'' (Some ''2024-01-05'') []) =
   generateTaskId plainDigest (mkTask ''y'' ''send the report'' ''LOW'' (Some ''2024-01-05'') [''Review budget''])"
proof -
  let ?t1 = "mkTask ''x'' ''  Send   the REPORT '' ''LOW'' (Some ''2024-01-05'') []"
  let ?t2 = "mkTask ''y'' ''send the report'' ''LOW'' (Some ''2024-01-05'') [''Review budget'']"
  have n1: "normalizedDescription ''  Send   the REPORT '' = ''send the report''"
    and n2: "normalizedDescription ''send the report'' = ''send the report''"
    by code_simp+
  have f: "threadId ?t1 = threadId ?t2" "deadline ?t1 = deadline ?t2" "priority ?t1 = priority ?t2"
    by (simp_all add: mkTask_def)
  have d: "normalizedDescription (description ?t1) = normalizedDescription (description ?t2)"
    by (simp add: mkTask_def n1 n2)
  from generateTaskId_normalized [OF f d, of plainDigest] n1 show ?thesis by simp
qed

section \<open>Properties of the durable store\<close>












lemma createTask_twice_listeners:
  "listeners (emitted (snd (createTask
      (snd (createTask emptyService ''x'' (creation ''a'' ''th1'' ''Send report'' ''PENDING'')))
      ''y'' (creation ''b'' ''th1'' ''  SEND REPORT'' ''PENDING'')))) =
   [Selecting (creation ''a'' ''th1'' ''Send report'' ''PENDING''),
    Selecting (creation ''b'' ''th1'' ''  SEND REPORT'' ''PENDING'')]"
  by code_simp


section \<open>Properties of clustering\<close>

lemma groupSimilarTasks_after_throw:
  assumes "fst (groupSimilarTasks_try compare this rs) = Inl e"
  shows "fst (groupSimilarTasks compare this rs) = Inl (ReferenceError ''allTasks is not defined'')"
  using assms by (auto simp: groupSimilarTasks_def split: prod.splits sum.splits)

lemma groupSimilarTasks_example:
  "(case fst (groupSimilarTasks caseBlind emptyService fourTasks) of
      Inl e \<Rightarrow> False
    | Inr groups \<Rightarrow> map (map taskId) groups = [[''t1'', ''t2''], [''t3''], [''t4'']])"
  by code_simp

lemma groupSimilarTasks_no_throw:
  assumes "fst (groupSimilarTasks_try compare this rs) = Inr groups"
  shows "fst (groupSimilarTasks compare this rs) = Inr groups"
  using assms by (auto simp: groupSimilarTasks_def split: prod.splits sum.splits)

text \<open>
  C2. The claim fails on the code: when the comparator rejects during the clustering
  of four tasks, the \<^verbatim>\<open>try\<close> block throws and the \<^verbatim>\<open>catch\<close> block, instead of
  returning the four singleton groups, throws a \<^verbatim>\<open>ReferenceError\<close>.
\<close>

theorem groupSimilarTasks_fallback_throws:
  "fst (groupSimilarTasks_try rejecting emptyService fourTasks) =
     Inl (TypeError ''str.toLowerCase is not a function'') \<and>
   fst (groupSimilarTasks rejecting emptyService fourTasks) =
     Inl (ReferenceError ''allTasks is not defined'') \<and>
   length (singletons fourTasks) = 4 \<and>
   fst (groupSimilarTasks rejecting emptyService fourTasks) \<noteq> Inr (singletons fourTasks)"
  by code_simp

end
